theory Spec2Isabelle
  imports Complex_Main
begin

section \<open>The 24 game: data model\<close>

text \<open>
  The program is one Python class, \<^verbatim>\<open>TwentyFourGame\<close>. Its methods are embedded as HOL
  functions over a record of the instance's fields. Every exception the source can raise
  is a value of the type \<open>error\<close>; a method that can raise returns \<open>error + 'a\<close>.
\<close>

datatype error = ZeroDivisionError | IndexError | SyntaxError | ValueError | KeyError

datatype operator = Add | Sub | Mul | Div

text \<open>
  The fields set by \<^verbatim>\<open>__init__\<close>. Times are seconds; \<open>best_time\<close> is \<open>None\<close> for the
  initial \<^verbatim>\<open>float('inf')\<close>. \<open>available_operators\<close> is the dictionary from difficulty
  names to operator lists.
\<close>

record game =
  target :: int
  current_numbers :: "int list"
  start_time :: rat
  games_played :: nat
  games_solved :: nat
  total_time :: rat
  best_time :: "rat option"
  difficulty :: string
  available_operators :: "string \<rightharpoonup> operator list"

definition operator_table :: "string \<rightharpoonup> operator list" where
  "operator_table =
     [''easy'' \<mapsto> [Add, Sub],
      ''normal'' \<mapsto> [Add, Sub, Mul, Div],
      ''hard'' \<mapsto> [Add, Sub, Mul, Div],
      ''expert'' \<mapsto> [Add, Sub, Mul, Div]]"

definition init :: game where
  "init = \<lparr> target = 24, current_numbers = [], start_time = 0, games_played = 0,
            games_solved = 0, total_time = 0, best_time = None,
            difficulty = ''normal'', available_operators = operator_table \<rparr>"

subsection \<open>Triviality classifier\<close>

text \<open>
  \<^verbatim>\<open>has_trivial_solution\<close>: the loop \<^verbatim>\<open>for num in numbers\<close> tests
  \<^verbatim>\<open>24 % num == 0 and (24 // num) in numbers\<close> and returns at the first operand that
  passes. \<^verbatim>\<open>24 % 0\<close> raises. Python's \<^verbatim>\<open>%\<close> and \<^verbatim>\<open>//\<close> round towards minus
  infinity, as \<open>mod\<close> and \<open>div\<close> on \<open>int\<close> do. The constant 24 is written out in the
  source; the method does not read \<^verbatim>\<open>self.target\<close>.
\<close>

fun trivial_loop :: "int list \<Rightarrow> int list \<Rightarrow> error + bool" where
  "trivial_loop numbers [] = Inr False"
| "trivial_loop numbers (num # rest) =
     (if num = 0 then Inl ZeroDivisionError
      else if 24 mod num = 0 \<and> 24 div num \<in> set numbers then Inr True
      else trivial_loop numbers rest)"

definition has_trivial_solution :: "int list \<Rightarrow> error + bool" where
  "has_trivial_solution numbers =
     (case trivial_loop numbers numbers of
        Inl e \<Rightarrow> Inl e
      | Inr True \<Rightarrow> Inr True
      | Inr False \<Rightarrow> if sum_list numbers = 24 then Inr True else Inr False)"

subsection \<open>Difficulty\<close>

text \<open>
  \<^verbatim>\<open>str.lower\<close> on the ASCII letters. A character outside ASCII is left as it is here;
  Python may map it to another character, but never to one of the letters of the four
  difficulty names, so membership in the dictionary is the same.
\<close>

definition lower_char :: "char \<Rightarrow> char" where
  "lower_char c =
     (let n = (of_char c :: nat) in if 65 \<le> n \<and> n \<le> 90 then char_of (n + 32) else c)"

definition lower :: "string \<Rightarrow> string" where
  "lower s = map lower_char s"

definition set_difficulty :: "string \<Rightarrow> game \<Rightarrow> bool \<times> game" where
  "set_difficulty d g =
     (case available_operators g (lower d) of
        Some _ \<Rightarrow> (True, g\<lparr>difficulty := lower d\<rparr>)
      | None \<Rightarrow> (False, g))"

text \<open>
  The other methods that assign fields. \<^verbatim>\<open>start_new_game\<close> stores the generated numbers
  and the clock; \<^verbatim>\<open>solve_puzzle\<close> updates the counters when the expression was accepted.
  The random numbers, the clock readings and the verdict of the validator are inputs here.
\<close>

definition start_new_game :: "int list \<Rightarrow> rat \<Rightarrow> game \<Rightarrow> game" where
  "start_new_game numbers now g =
     g\<lparr>current_numbers := numbers, start_time := now, games_played := games_played g + 1\<rparr>"

definition solve_puzzle :: "bool \<Rightarrow> rat \<Rightarrow> game \<Rightarrow> game" where
  "solve_puzzle is_valid now g =
     (if is_valid then
        let elapsed_time = now - start_time g in
        g\<lparr>games_solved := games_solved g + 1,
          total_time := total_time g + elapsed_time,
          best_time := (case best_time g of
                          None \<Rightarrow> Some elapsed_time
                        | Some b \<Rightarrow> if elapsed_time < b then Some elapsed_time else Some b)\<rparr>
      else g)"

inductive reachable :: "game \<Rightarrow> bool" where
  reach_init: "reachable init"
| reach_set_difficulty: "reachable g \<Longrightarrow> reachable (snd (set_difficulty d g))"
| reach_start_new_game: "reachable g \<Longrightarrow> reachable (start_new_game numbers now g)"
| reach_solve_puzzle: "reachable g \<Longrightarrow> reachable (solve_puzzle is_valid now g)"

definition difficulty_levels :: "string set" where
  "difficulty_levels = {''easy'', ''normal'', ''hard'', ''expert''}"

subsection \<open>Expressions\<close>

text \<open>
  \<^verbatim>\<open>find_all_solutions\<close> builds each candidate as text, with \<^verbatim>\<open>pattern.format\<close>, and
  hands the text to Python's \<^verbatim>\<open>eval\<close>. The model keeps the text as the sequence of
  its pieces: the blanks of the templates separate them and are dropped. \<open>Num n\<close> is
  the text \<^verbatim>\<open>str(n)\<close> of an operand, \<open>Op f\<close> an operator sign. A template is the list
  of its pieces, \<open>Field k\<close> for \<^verbatim>\<open>{k}\<close>.
\<close>

datatype token = Num int | Op operator | LParen | RParen

datatype piece = Field nat | Open | Close

definition patterns :: "piece list list" where
  "patterns =
     [[Open, Field 0, Field 4, Field 1, Close, Field 5, Open, Field 2, Field 6, Field 3, Close],
      [Open, Open, Field 0, Field 4, Field 1, Close, Field 5, Field 2, Close, Field 6, Field 3],
      [Open, Field 0, Field 4, Open, Field 1, Field 5, Field 2, Close, Close, Field 6, Field 3],
      [Field 0, Field 4, Open, Open, Field 1, Field 5, Field 2, Close, Field 6, Field 3, Close],
      [Field 0, Field 4, Open, Field 1, Field 5, Open, Field 2, Field 6, Field 3, Close, Close],
      [Field 0, Field 4, Field 1, Field 5, Field 2, Field 6, Field 3]]"

text \<open>
  \<^verbatim>\<open>pattern.format(*num_perm, *ops)\<close>: a field whose index is not below the number of
  arguments raises \<^verbatim>\<open>IndexError\<close>.
\<close>

fun format_pattern :: "piece list \<Rightarrow> token list \<Rightarrow> error + token list" where
  "format_pattern [] args = Inr []"
| "format_pattern (Field k # ps) args =
     (if k < length args
      then (case format_pattern ps args of Inl e \<Rightarrow> Inl e | Inr ts \<Rightarrow> Inr (args ! k # ts))
      else Inl IndexError)"
| "format_pattern (Open # ps) args =
     (case format_pattern ps args of Inl e \<Rightarrow> Inl e | Inr ts \<Rightarrow> Inr (LParen # ts))"
| "format_pattern (Close # ps) args =
     (case format_pattern ps args of Inl e \<Rightarrow> Inl e | Inr ts \<Rightarrow> Inr (RParen # ts))"

text \<open>
  The tokens Python reads in the text. \<^verbatim>\<open>str\<close> of a negative operand is a minus
  sign followed by digits, which are two tokens: the sign and a literal. Whether the sign
  negates the literal or subtracts it from what stands before is decided by the grammar,
  not by the text. \<^verbatim>\<open>re.findall\<close> in \<^verbatim>\<open>evaluate_with_fractions\<close> splits the text
  into the same tokens.
\<close>

fun tokenize :: "token list \<Rightarrow> token list" where
  "tokenize [] = []"
| "tokenize (Num n # ts) =
     (if n < 0 then Op Sub # Num (- n) # tokenize ts else Num n # tokenize ts)"
| "tokenize (t # ts) = t # tokenize ts"

text \<open>
  What \<^verbatim>\<open>eval\<close> makes of the tokens: Python's grammar for literals, the four binary
  operators and parentheses. \<^verbatim>\<open>*\<close> and \<^verbatim>\<open>/\<close> bind tighter than \<^verbatim>\<open>+\<close> and
  \<^verbatim>\<open>-\<close>; operators of one level associate to the left. A minus sign where an operand
  is expected negates the literal after it, and binds tighter than every binary
  operator; after an operand it is a subtraction. The parser reads the tokens once, with
  a stack of pending operators and a stack of finished operands; the flag says whether an
  operand is expected next. \<open>None\<close> is a text that Python does not evaluate: a syntax
  error or, for an operand directly followed by a parenthesis, a call of a number. Other
  signs in the place of an operand do not occur in a formatted text and are not read.
\<close>

datatype expr = Const int | BinOp operator expr expr

datatype pending = POp operator | PParen

fun prec :: "operator \<Rightarrow> nat" where
  "prec Add = 1"
| "prec Sub = 1"
| "prec Mul = 2"
| "prec Div = 2"

fun reduce :: "nat \<Rightarrow> pending list \<Rightarrow> expr list \<Rightarrow> pending list \<times> expr list" where
  "reduce p (POp f # ops) (r # l # out) =
     (if p \<le> prec f then reduce p ops (BinOp f l r # out) else (POp f # ops, r # l # out))"
| "reduce p ops out = (ops, out)"

fun shunt :: "bool \<Rightarrow> token list \<Rightarrow> pending list \<Rightarrow> expr list \<Rightarrow> expr option" where
  "shunt True (Num n # ts) ops out = shunt False ts ops (Const n # out)"
| "shunt True (Op Sub # Num n # ts) ops out = shunt False ts ops (Const (- n) # out)"
| "shunt True (LParen # ts) ops out = shunt True ts (PParen # ops) out"
| "shunt False (Op f # ts) ops out =
     (case reduce (prec f) ops out of (ops', out') \<Rightarrow> shunt True ts (POp f # ops') out')"
| "shunt False (RParen # ts) ops out =
     (case reduce 0 ops out of
        (PParen # ops', out') \<Rightarrow> shunt False ts ops' out'
      | _ \<Rightarrow> None)"
| "shunt False [] ops out =
     (case reduce 0 ops out of
        ([], [e]) \<Rightarrow> Some e
      | _ \<Rightarrow> None)"
| "shunt _ _ _ _ = None"

definition parse :: "token list \<Rightarrow> expr option" where
  "parse expression = shunt True (tokenize expression) [] []"

subsection \<open>Numbers\<close>

text \<open>
  A Python \<^verbatim>\<open>float\<close> is a double. A finite double is modelled by its exact value, a
  rational; \<open>fl\<close> rounds a rational to 53 significant bits, ties to even, which is what
  every operation on doubles, the conversion of an \<^verbatim>\<open>int\<close> or a \<^verbatim>\<open>Fraction\<close> to
  \<^verbatim>\<open>float\<close>, and the reading of a literal do. The exponent range of the format is not
  modelled: this is exact while no intermediate result leaves the range of the normal
  doubles, from \<open>2\<^sup>-\<^sup>1\<^sup>0\<^sup>2\<^sup>2\<close> to below \<open>2\<^sup>1\<^sup>0\<^sup>2\<^sup>4\<close> in magnitude.
\<close>

definition pow2 :: "int \<Rightarrow> rat" where
  "pow2 e = (if 0 \<le> e then 2 ^ nat e else 1 / 2 ^ nat (- e))"

definition round_half_even :: "rat \<Rightarrow> int" where
  "round_half_even x =
     (let f = \<lfloor>x\<rfloor>; d = x - of_int f
      in if d < 1 / 2 then f else if 1 / 2 < d then f + 1 else if even f then f else f + 1)"

text \<open>
  The number of binary digits of a positive integer, and with it the exponent of a
  nonzero rational: the \<open>e\<close> with \<open>2\<^sup>e \<le> |x| < 2\<^sup>e\<^sup>+\<^sup>1\<close>.
\<close>

function bit_length :: "int \<Rightarrow> nat" where
  "bit_length n = (if n \<le> 0 then 0 else Suc (bit_length (n div 2)))"
  by pat_completeness auto
termination
  by (relation "measure nat") auto

declare bit_length.simps [simp del]

definition exponent :: "rat \<Rightarrow> int" where
  "exponent x =
     (let (p, q) = quotient_of \<bar>x\<bar>;
          k = int (bit_length p) - int (bit_length q)
      in if pow2 k \<le> \<bar>x\<bar> then k else k - 1)"

definition fl :: "rat \<Rightarrow> rat" where
  "fl x =
     (if x = 0 then 0
      else let u = pow2 (exponent x - 52)
           in sgn x * of_int (round_half_even (\<bar>x\<bar> / u)) * u)"

text \<open>
  A value during \<^verbatim>\<open>eval\<close> of the text: an \<^verbatim>\<open>int\<close>, unbounded and exact, or a
  \<^verbatim>\<open>float\<close>. \<^verbatim>\<open>+\<close>, \<^verbatim>\<open>-\<close> and \<^verbatim>\<open>*\<close> of two ints are an int; \<^verbatim>\<open>/\<close> of two ints is
  the correctly rounded quotient; with a float operand the other operand is converted
  and the result rounded. A zero divisor raises.
\<close>

datatype pyval = PInt int | PFloat rat

fun to_float :: "pyval \<Rightarrow> rat" where
  "to_float (PInt n) = fl (of_int n)"
| "to_float (PFloat r) = r"

fun int_binop :: "operator \<Rightarrow> int \<Rightarrow> int \<Rightarrow> error + pyval" where
  "int_binop Add x y = Inr (PInt (x + y))"
| "int_binop Sub x y = Inr (PInt (x - y))"
| "int_binop Mul x y = Inr (PInt (x * y))"
| "int_binop Div x y =
     (if y = 0 then Inl ZeroDivisionError else Inr (PFloat (fl (of_int x / of_int y))))"

fun float_binop :: "operator \<Rightarrow> rat \<Rightarrow> rat \<Rightarrow> error + pyval" where
  "float_binop Add x y = Inr (PFloat (fl (x + y)))"
| "float_binop Sub x y = Inr (PFloat (fl (x - y)))"
| "float_binop Mul x y = Inr (PFloat (fl (x * y)))"
| "float_binop Div x y =
     (if y = 0 then Inl ZeroDivisionError else Inr (PFloat (fl (x / y))))"

fun py_binop :: "operator \<Rightarrow> pyval \<Rightarrow> pyval \<Rightarrow> error + pyval" where
  "py_binop f (PInt x) (PInt y) = int_binop f x y"
| "py_binop f a b = float_binop f (to_float a) (to_float b)"

fun py_eval :: "expr \<Rightarrow> error + pyval" where
  "py_eval (Const n) = Inr (PInt n)"
| "py_eval (BinOp f l r) =
     (case py_eval l of
        Inl e \<Rightarrow> Inl e
      | Inr a \<Rightarrow> (case py_eval r of Inl e \<Rightarrow> Inl e | Inr b \<Rightarrow> py_binop f a b))"

text \<open>The same expression over \<^verbatim>\<open>Fraction\<close>: exact rational arithmetic.\<close>

fun frac_binop :: "operator \<Rightarrow> rat \<Rightarrow> rat \<Rightarrow> error + rat" where
  "frac_binop Add x y = Inr (x + y)"
| "frac_binop Sub x y = Inr (x - y)"
| "frac_binop Mul x y = Inr (x * y)"
| "frac_binop Div x y = (if y = 0 then Inl ZeroDivisionError else Inr (x / y))"

fun frac_eval :: "expr \<Rightarrow> error + rat" where
  "frac_eval (Const n) = Inr (of_int n)"
| "frac_eval (BinOp f l r) =
     (case frac_eval l of
        Inl e \<Rightarrow> Inl e
      | Inr a \<Rightarrow> (case frac_eval r of Inl e \<Rightarrow> Inl e | Inr b \<Rightarrow> frac_binop f a b))"

text \<open>
  \<open>rounded v q\<close>: the Python value \<open>v\<close> stands for the exact value \<open>q\<close>, as the same
  integer or as the double nearest to it.
\<close>

definition rounded :: "pyval \<Rightarrow> rat \<Rightarrow> bool" where
  "rounded v q = (case v of PInt n \<Rightarrow> q = of_int n | PFloat r \<Rightarrow> r = fl q)"

subsection \<open>Evaluator\<close>

text \<open>
  \<^verbatim>\<open>evaluate_with_fractions\<close> splits the text into the same tokens, wraps every number
  in \<^verbatim>\<open>Fraction(...)\<close> and evaluates. Its handler for a division by zero,
  \<^verbatim>\<open>return Fraction('inf')\<close>, raises \<^verbatim>\<open>ValueError\<close>: \<^verbatim>\<open>Fraction\<close> accepts no such
  literal.
\<close>

definition evaluate_with_fractions :: "token list \<Rightarrow> error + rat" where
  "evaluate_with_fractions expression =
     (case parse expression of
        None \<Rightarrow> Inl SyntaxError
      | Some e \<Rightarrow>
          (case frac_eval e of
             Inl ZeroDivisionError \<Rightarrow> Inl ValueError
           | Inl err \<Rightarrow> Inl err
           | Inr q \<Rightarrow> Inr q))"

text \<open>
  \<^verbatim>\<open>evaluate_expression\<close> returns a float, possibly \<^verbatim>\<open>float('inf')\<close>. It first
  evaluates the text as it is; a division by zero there gives infinity. When the text
  contains a \<^verbatim>\<open>/\<close> the result is recomputed over fractions and converted to float.
  Every other exception leaves as \<^verbatim>\<open>ValueError\<close>.
\<close>

datatype pyfloat = Finite rat | Infinity

definition evaluate_expression :: "token list \<Rightarrow> error + pyfloat" where
  "evaluate_expression expression =
     (case parse expression of
        None \<Rightarrow> Inl ValueError
      | Some e \<Rightarrow>
          (case py_eval e of
             Inl ZeroDivisionError \<Rightarrow> Inr Infinity
           | Inl err \<Rightarrow> Inl ValueError
           | Inr result \<Rightarrow>
               if Op Div \<in> set expression
               then (case evaluate_with_fractions expression of
                       Inl err \<Rightarrow> Inl ValueError
                     | Inr q \<Rightarrow> Inr (Finite (fl q)))
               else Inr (Finite (to_float result))))"

subsection \<open>Enumeration and search\<close>

text \<open>
  \<^verbatim>\<open>itertools.permutations(numbers)\<close>: the orderings of the positions of the list, so
  equal operands at different positions are told apart; in the order of the library, by
  the position chosen first. \<open>picks\<close> lists each element with the rest of the list.
\<close>

fun picks :: "'a list \<Rightarrow> ('a \<times> 'a list) list" where
  "picks [] = []"
| "picks (x # xs) = (x, xs) # map (\<lambda>(y, ys). (y, x # ys)) (picks xs)"

fun permutations_of_length :: "nat \<Rightarrow> 'a list \<Rightarrow> 'a list list" where
  "permutations_of_length 0 xs = [[]]"
| "permutations_of_length (Suc r) xs =
     concat (map (\<lambda>(y, ys). map ((#) y) (permutations_of_length r ys)) (picks xs))"

definition permutations :: "'a list \<Rightarrow> 'a list list" where
  "permutations xs = permutations_of_length (length xs) xs"

text \<open>\<^verbatim>\<open>itertools.product(operators, repeat=n)\<close>, the last position varying fastest.\<close>

fun product_repeat :: "'a list \<Rightarrow> nat \<Rightarrow> 'a list list" where
  "product_repeat xs 0 = [[]]"
| "product_repeat xs (Suc n) = concat (map (\<lambda>x. map ((#) x) (product_repeat xs n)) xs)"

text \<open>
  The three nested loops of \<^verbatim>\<open>find_all_solutions\<close>, as the list of the combinations
  they visit, in the order they visit them.
\<close>

definition combinations ::
  "int list \<Rightarrow> operator list \<Rightarrow> (int list \<times> operator list \<times> piece list) list" where
  "combinations numbers operators =
     concat (map (\<lambda>num_perm.
       concat (map (\<lambda>ops. map (\<lambda>pattern. (num_perm, ops, pattern)) patterns)
                   (product_repeat operators 3)))
       (permutations numbers))"

text \<open>
  The comparison \<^verbatim>\<open>abs(result - self.target) < 1e-10\<close> on floats: the target is
  converted to float, the difference is rounded, and \<^verbatim>\<open>1e-10\<close> is the double nearest
  to that decimal. With an infinite result the difference is infinite.
\<close>

fun near_target :: "pyfloat \<Rightarrow> int \<Rightarrow> bool" where
  "near_target Infinity t = False"
| "near_target (Finite r) t = (\<bar>fl (r - fl (of_int t))\<bar> < fl (1 / 10 ^ 10))"

text \<open>
  The body of the innermost loop, for one combination: \<open>Some\<close> of the expression when it
  is added to \<^verbatim>\<open>solutions\<close>, \<open>None\<close> when the test fails or when the bare
  \<^verbatim>\<open>except\<close> catches an exception and the loop continues.
\<close>

definition try_combination ::
  "int \<Rightarrow> int list \<times> operator list \<times> piece list \<Rightarrow> token list option" where
  "try_combination tgt c =
     (case c of (num_perm, ops, pattern) \<Rightarrow>
        (case format_pattern pattern (map Num num_perm @ map Op ops) of
           Inl err \<Rightarrow> None
         | Inr expression \<Rightarrow>
             (case evaluate_expression expression of
                Inl err \<Rightarrow> None
              | Inr result \<Rightarrow> if near_target result tgt then Some expression else None)))"

text \<open>
  \<^verbatim>\<open>find_all_solutions\<close>. The only exception that can leave it is the \<^verbatim>\<open>KeyError\<close> of
  the dictionary lookup. The kept expressions are collected in a Python \<^verbatim>\<open>set\<close> and
  returned as \<^verbatim>\<open>list(solutions)\<close>, whose order is the set's own: the model returns the
  set. \<open>discovered\<close> is the sequence of the calls of \<^verbatim>\<open>solutions.add\<close>. A kept
  expression stands for its display text, which spells the same tokens with the glyphs
  of \<^verbatim>\<open>operator_symbols\<close>; different expressions have different display texts.
\<close>

definition discovered :: "int \<Rightarrow> int list \<Rightarrow> operator list \<Rightarrow> token list list" where
  "discovered tgt numbers operators =
     List.map_filter (try_combination tgt) (combinations numbers operators)"

definition find_all_solutions :: "game \<Rightarrow> int list \<Rightarrow> error + token list set" where
  "find_all_solutions g numbers =
     (case available_operators g (difficulty g) of
        None \<Rightarrow> Inl KeyError
      | Some operators \<Rightarrow> Inr (set (discovered (target g) numbers operators)))"

definition has_solution :: "game \<Rightarrow> int list \<Rightarrow> error + bool" where
  "has_solution g numbers =
     (case find_all_solutions g numbers of
        Inl err \<Rightarrow> Inl err
      | Inr solutions \<Rightarrow> Inr (solutions \<noteq> {}))"


subsection \<open>The five nestings of four operands\<close>

text \<open>
  The binary trees with four leaves, named as the specification numbers them, for
  comparison with what \<open>parse\<close> makes of the six templates:
  \<open>shape1\<close> is \<open>(p0 o0 p1) o1 (p2 o2 p3)\<close>, \<open>shape2\<close> is \<open>((p0 o0 p1) o1 p2) o2 p3\<close>,
  \<open>shape3\<close> is \<open>(p0 o0 (p1 o1 p2)) o2 p3\<close>, \<open>shape4\<close> is \<open>p0 o0 ((p1 o1 p2) o2 p3)\<close> and
  \<open>shape5\<close> is \<open>p0 o0 (p1 o1 (p2 o2 p3))\<close>. Strict left-to-right evaluation of four
  operands is \<open>shape2\<close>.
\<close>

definition shape1 :: "int \<Rightarrow> int \<Rightarrow> int \<Rightarrow> int \<Rightarrow> operator \<Rightarrow> operator \<Rightarrow> operator \<Rightarrow> expr" where
  "shape1 a b c d f g h = BinOp g (BinOp f (Const a) (Const b)) (BinOp h (Const c) (Const d))"

definition shape2 :: "int \<Rightarrow> int \<Rightarrow> int \<Rightarrow> int \<Rightarrow> operator \<Rightarrow> operator \<Rightarrow> operator \<Rightarrow> expr" where
  "shape2 a b c d f g h = BinOp h (BinOp g (BinOp f (Const a) (Const b)) (Const c)) (Const d)"

definition shape3 :: "int \<Rightarrow> int \<Rightarrow> int \<Rightarrow> int \<Rightarrow> operator \<Rightarrow> operator \<Rightarrow> operator \<Rightarrow> expr" where
  "shape3 a b c d f g h = BinOp h (BinOp f (Const a) (BinOp g (Const b) (Const c))) (Const d)"

definition shape4 :: "int \<Rightarrow> int \<Rightarrow> int \<Rightarrow> int \<Rightarrow> operator \<Rightarrow> operator \<Rightarrow> operator \<Rightarrow> expr" where
  "shape4 a b c d f g h = BinOp f (Const a) (BinOp h (BinOp g (Const b) (Const c)) (Const d))"

definition shape5 :: "int \<Rightarrow> int \<Rightarrow> int \<Rightarrow> int \<Rightarrow> operator \<Rightarrow> operator \<Rightarrow> operator \<Rightarrow> expr" where
  "shape5 a b c d f g h = BinOp f (Const a) (BinOp g (Const b) (BinOp h (Const c) (Const d)))"

text \<open>The operands of an expression, from left to right, and whether it divides.\<close>

fun leaves :: "expr \<Rightarrow> int list" where
  "leaves (Const n) = [n]"
| "leaves (BinOp f l r) = leaves l @ leaves r"

fun uses_div :: "expr \<Rightarrow> bool" where
  "uses_div (Const n) = False"
| "uses_div (BinOp f l r) = (f = Div \<or> uses_div l \<or> uses_div r)"

text \<open>
  The expression a template denotes for four operands and three operators: the text is
  formatted and parsed. \<open>None\<close> when either step fails.
\<close>

definition nesting :: "piece list \<Rightarrow> int list \<Rightarrow> operator list \<Rightarrow> expr option" where
  "nesting pattern num_perm ops =
     (case format_pattern pattern (map Num num_perm @ map Op ops) of
        Inl err \<Rightarrow> None
      | Inr expression \<Rightarrow> parse expression)"

section \<open>Triviality classifier: results\<close>

lemma trivial_loop_nonzero:
  "0 \<notin> set rest \<Longrightarrow>
   trivial_loop numbers rest = Inr (\<exists>num \<in> set rest. 24 mod num = 0 \<and> 24 div num \<in> set numbers)"
  by (induction rest) auto

lemma has_trivial_solution_nonzero:
  assumes "0 \<notin> set numbers"
  shows "has_trivial_solution numbers =
           Inr ((\<exists>num \<in> set numbers. 24 mod num = 0 \<and> 24 div num \<in> set numbers)
                \<or> sum_list numbers = 24)"
  using trivial_loop_nonzero [OF assms, of numbers]
  by (auto simp: has_trivial_solution_def split: bool.splits)

text \<open>
  C3. The claim: the classifier returns false for [3,3,8,8] and true for every operand set
  whose elements sum to 24, such as [1,2,3,18]. On [3,3,8,8] the first operand 3 divides
  24 and the quotient 8 is among the operands, so the loop returns true there.
\<close>

theorem C3_counterexample:
  "has_trivial_solution [3, 3, 8, 8] \<noteq> Inr False"
  by (simp add: has_trivial_solution_def)

text \<open>
  C3, as amended: the classifier returns true for [3,3,8,8] (3 divides 24 and 8 is an
  operand), and true for [1,2,3,18] and every other list of nonzero operands whose sum
  is 24.
\<close>

theorem C3_trivial_examples:
  "has_trivial_solution [3, 3, 8, 8] = Inr True
   \<and> has_trivial_solution [1, 2, 3, 18] = Inr True
   \<and> (0 \<notin> set numbers \<and> sum_list numbers = 24 \<longrightarrow> has_trivial_solution numbers = Inr True)"
proof -
  have "has_trivial_solution [3, 3, 8, 8] = Inr True"
    by (simp add: has_trivial_solution_def)
  moreover have "has_trivial_solution [1, 2, 3, 18] = Inr True"
    by (simp add: has_trivial_solution_def)
  moreover have "has_trivial_solution numbers = Inr True"
    if "0 \<notin> set numbers" "sum_list numbers = 24"
    using that by (simp add: has_trivial_solution_nonzero)
  ultimately show ?thesis by blast
qed

theorem C3_trivial_examples_witness:
  "0 \<notin> set [6, 6, 7, 5 :: int] \<and> sum_list [6, 6, 7, 5 :: int] = 24
   \<and> has_trivial_solution [6, 6, 7, 5] = Inr True"
  using C3_trivial_examples [of "[6, 6, 7, 5]"] by simp

text \<open>
  C4. For four operands in the range 1 to 9 the classifier returns, without raising, the
  truth value of: some operand divides 24 and the quotient is an operand, or the operands
  sum to 24.
\<close>

theorem C4_trivial_iff:
  assumes "length numbers = 4" and "\<forall>x \<in> set numbers. 1 \<le> x \<and> x \<le> 9"
  shows "has_trivial_solution numbers =
           Inr ((\<exists>num \<in> set numbers. num dvd 24 \<and> 24 div num \<in> set numbers)
                \<or> sum_list numbers = 24)"
proof -
  from assms(2) have "0 \<notin> set numbers" by auto
  then show ?thesis
    by (simp add: has_trivial_solution_nonzero dvd_eq_mod_eq_0)
qed

theorem C4_trivial_iff_witness:
  "length [2, 5, 7, 9 :: int] = 4
   \<and> has_trivial_solution [2, 5, 7, 9] = Inr False
   \<and> has_trivial_solution [4, 5, 6, 9] = Inr True"
  using C4_trivial_iff [of "[2, 5, 7, 9]"] C4_trivial_iff [of "[4, 5, 6, 9]"]
  by simp

text \<open>
  C9. The claim: with a zero among the operands the classifier raises a division by zero
  instead of returning a truth value. The loop returns at the first operand that passes
  its test, so a zero that comes after such an operand is never divided by.
\<close>

theorem C9_counterexample:
  "0 \<in> set [3, 8, 0, 1 :: int] \<and> has_trivial_solution [3, 8, 0, 1] = Inr True"
  by (simp add: has_trivial_solution_def)

lemma trivial_loop_zero:
  "0 \<notin> set pre \<Longrightarrow>
   trivial_loop numbers (pre @ 0 # post) =
     (if \<exists>num \<in> set pre. 24 mod num = 0 \<and> 24 div num \<in> set numbers
      then Inr True else Inl ZeroDivisionError)"
  by (induction pre) auto

text \<open>
  C9, as amended: the classifier raises a division by zero exactly when the operands
  before the first zero all fail the loop's test; when one of them passes it returns
  true; and with no zero operand it always returns a truth value.
\<close>

theorem C9_zero_operand:
  "(0 \<notin> set pre \<longrightarrow>
      has_trivial_solution (pre @ 0 # post) =
        (if \<exists>num \<in> set pre. 24 mod num = 0 \<and> 24 div num \<in> set (pre @ 0 # post)
         then Inr True else Inl ZeroDivisionError))
   \<and> (0 \<notin> set numbers \<longrightarrow> (\<exists>b. has_trivial_solution numbers = Inr b))"
proof (intro conjI impI)
  assume pre: "0 \<notin> set pre"
  show "has_trivial_solution (pre @ 0 # post) =
        (if \<exists>num \<in> set pre. 24 mod num = 0 \<and> 24 div num \<in> set (pre @ 0 # post)
         then Inr True else Inl ZeroDivisionError)"
    using trivial_loop_zero [OF pre, of "pre @ 0 # post" post]
    by (simp add: has_trivial_solution_def)
next
  assume "0 \<notin> set numbers"
  then show "\<exists>b. has_trivial_solution numbers = Inr b"
    by (simp add: has_trivial_solution_nonzero)
qed

theorem C9_zero_operand_witness:
  "0 \<notin> set [5, 7 :: int] \<and> has_trivial_solution ([5, 7] @ 0 # [8]) = Inl ZeroDivisionError
   \<and> 0 \<notin> set [3, 8 :: int] \<and> has_trivial_solution ([3, 8] @ 0 # [1]) = Inr True
   \<and> 0 \<notin> set [1, 5, 5, 5 :: int] \<and> (\<exists>b. has_trivial_solution [1, 5, 5, 5] = Inr b)"
  using C9_zero_operand [of "[5, 7]" "[8]" "[1, 5, 5, 5]"]
        C9_zero_operand [of "[3, 8]" "[1]" "[1, 5, 5, 5]"]
  by simp

section \<open>Difficulty: results\<close>


lemma lower_Expert: "lower ''Expert'' = ''expert''"
  by code_simp

lemma lower_medium: "lower ''medium'' = ''medium''"
  by (simp add: lower_def lower_char_def)


lemma operator_table_dom: "(operator_table d \<noteq> None) = (d \<in> difficulty_levels)"
  by (simp add: operator_table_def difficulty_levels_def)

lemma reachable_invariant:
  "reachable g \<Longrightarrow> available_operators g = operator_table \<and> difficulty g \<in> difficulty_levels"
proof (induction rule: reachable.induct)
  case reach_init
  show ?case by (simp add: init_def difficulty_levels_def)
next
  case (reach_set_difficulty g d)
  then show ?case
    using operator_table_dom [of "lower d"]
    by (auto simp: set_difficulty_def split: option.splits)
next
  case (reach_start_new_game g numbers now)
  then show ?case by (simp add: start_new_game_def)
next
  case (reach_solve_puzzle g is_valid now)
  then show ?case by (simp add: solve_puzzle_def Let_def)
qed

text \<open>
  C10. In every state the game can reach, the difficulty is one of easy, normal, hard and
  expert; \<open>set_difficulty\<close> stores the lower-cased argument when it names one of the
  four levels and otherwise returns false with the state unchanged; so the lookup of the
  operators of the current difficulty always succeeds.
\<close>

theorem C10_difficulty_invariant:
  assumes "reachable g"
  shows "difficulty g \<in> difficulty_levels
    \<and> set_difficulty d g =
        (if lower d \<in> difficulty_levels then (True, g\<lparr>difficulty := lower d\<rparr>) else (False, g))
    \<and> difficulty (snd (set_difficulty d g)) \<in> difficulty_levels
    \<and> (\<exists>operators. available_operators g (difficulty g) = Some operators)"
proof -
  from assms have inv: "available_operators g = operator_table" "difficulty g \<in> difficulty_levels"
    by (simp_all add: reachable_invariant)
  have set: "set_difficulty d g =
        (if lower d \<in> difficulty_levels then (True, g\<lparr>difficulty := lower d\<rparr>) else (False, g))"
    using operator_table_dom [of "lower d"] inv(1)
    by (auto simp: set_difficulty_def split: option.splits)
  have "\<exists>operators. available_operators g (difficulty g) = Some operators"
    using operator_table_dom [of "difficulty g"] inv by auto
  with inv(2) set show ?thesis by auto
qed

theorem C10_difficulty_invariant_witness:
  "reachable (snd (set_difficulty ''Expert'' init))
   \<and> difficulty (snd (set_difficulty ''Expert'' init)) = ''expert''
   \<and> set_difficulty ''medium'' (snd (set_difficulty ''Expert'' init))
       = (False, snd (set_difficulty ''Expert'' init))"
  using C10_difficulty_invariant [OF reach_set_difficulty [OF reach_init], of "''Expert''" "''medium''"]
        C10_difficulty_invariant [OF reach_init, of "''Expert''"]
        reach_set_difficulty [OF reach_init, of "''Expert''"]
        lower_Expert lower_medium
  by (simp add: difficulty_levels_def)

section \<open>Enumeration: results\<close>

lemma length_picks: "length (picks xs) = length xs"
  by (induction xs) auto

lemma picks_length: "(y, ys) \<in> set (picks xs) \<Longrightarrow> Suc (length ys) = length xs"
  by (induction xs arbitrary: y ys) auto

lemma sum_list_const: "(\<And>x. x \<in> set xs \<Longrightarrow> f x = (c::nat)) \<Longrightarrow> sum_list (map f xs) = length xs * c"
  by (induction xs) auto

lemma length_permutations_of_length:
  "length xs = n \<Longrightarrow> length (permutations_of_length n xs) = fact n"
proof (induction n arbitrary: xs)
  case 0
  then show ?case by simp
next
  case (Suc n)
  have "\<And>p. p \<in> set (picks xs) \<Longrightarrow>
          length (case p of (y, ys) \<Rightarrow> map ((#) y) (permutations_of_length n ys)) = fact n"
    using Suc picks_length by (fastforce split: prod.splits)
  then have "sum_list (map (\<lambda>p. length (case p of (y, ys) \<Rightarrow> map ((#) y) (permutations_of_length n ys))) (picks xs))
             = length (picks xs) * fact n"
    by (rule sum_list_const)
  then show ?case
    using Suc.prems by (simp add: length_concat comp_def length_picks)
qed

lemma length_permutations: "length (permutations xs) = fact (length xs)"
  by (simp add: permutations_def length_permutations_of_length)

lemma length_product_repeat: "length (product_repeat xs n) = length xs ^ n"
  by (induction n) (simp_all add: length_concat comp_def sum_list_const)

lemma length_patterns: "length patterns = 6"
  by (simp add: patterns_def)

lemma length_combinations:
  "length (combinations numbers operators)
     = fact (length numbers) * (length operators ^ 3 * length patterns)"
  by (simp add: combinations_def length_concat comp_def sum_list_const
      length_permutations length_product_repeat)

text \<open>
  C7. For four operands the three loops visit 24 times \<open>|operators|\<^sup>3\<close> times 6
  combinations: 9216 with four operators and 1152 with two. The 24 orderings are orderings
  of positions, so equal operands do not reduce their number.
\<close>

theorem C7_combination_count:
  assumes "length numbers = 4"
  shows "length (permutations numbers) = 24
       \<and> length (combinations numbers operators) = 24 * length operators ^ 3 * 6
       \<and> (length operators = 4 \<longrightarrow> length (combinations numbers operators) = 9216)
       \<and> (length operators = 2 \<longrightarrow> length (combinations numbers operators) = 1152)"
  using assms
  by (simp add: length_combinations length_permutations length_patterns fact_numeral)

theorem C7_combination_count_witness:
  "length [3, 3, 8, 8 :: int] = 4
   \<and> length (permutations [3, 3, 8, 8 :: int]) = 24
   \<and> length (combinations [3, 3, 8, 8] [Add, Sub, Mul, Div]) = 9216
   \<and> length (combinations [3, 3, 8, 8] [Add, Sub]) = 1152"
  using C7_combination_count [of "[3, 3, 8, 8]" "[Add, Sub, Mul, Div]"]
        C7_combination_count [of "[3, 3, 8, 8]" "[Add, Sub]"]
  by simp

section \<open>Templates and nestings: results\<close>

lemma nesting_pattern1:
  "nesting (patterns ! 0) [a, b, c, d] [f, g, h] = Some (shape1 a b c d f g h)"
  by (simp add: nesting_def patterns_def parse_def shape1_def)

lemma nesting_pattern2:
  "nesting (patterns ! 1) [a, b, c, d] [f, g, h] = Some (shape2 a b c d f g h)"
  by (simp add: nesting_def patterns_def parse_def shape2_def)

lemma nesting_pattern3:
  "nesting (patterns ! 2) [a, b, c, d] [f, g, h] = Some (shape3 a b c d f g h)"
  by (simp add: nesting_def patterns_def parse_def shape3_def)

lemma nesting_pattern4:
  "nesting (patterns ! 3) [a, b, c, d] [f, g, h] = Some (shape4 a b c d f g h)"
  by (simp add: nesting_def patterns_def parse_def shape4_def)

lemma nesting_pattern5:
  "nesting (patterns ! 4) [a, b, c, d] [f, g, h] = Some (shape5 a b c d f g h)"
  by (simp add: nesting_def patterns_def parse_def shape5_def)

lemma nesting_pattern6:
  "nesting (patterns ! 5) [a, b, c, d] [f, g, h] =
     Some (if prec f < prec g
           then (if prec g \<le> prec h then shape4 a b c d f g h else shape3 a b c d f g h)
           else (if prec g < prec h then shape1 a b c d f g h else shape2 a b c d f g h))"
  by (cases f; cases g; cases h)
     (simp_all add: nesting_def patterns_def parse_def shape1_def shape2_def shape3_def shape4_def)

text \<open>
  C8. The claim: the solver evaluates exactly six parenthesisations, the five nestings and
  the ungrouped form read from left to right. The ungrouped text is evaluated by Python
  with its operator precedence: for the operands 1, 2, 3, 4 and the operators \<open>+\<close>,
  \<open>*\<close>, \<open>+\<close> it is \<open>(1 + (2 * 3)) + 4 = 11\<close>, not the left-to-right
  \<open>((1 + 2) * 3) + 4 = 13\<close>.
\<close>

theorem C8_counterexample:
  "nesting (patterns ! 5) [1, 2, 3, 4] [Add, Mul, Add] = Some (shape3 1 2 3 4 Add Mul Add)
   \<and> py_eval (shape3 1 2 3 4 Add Mul Add) = Inr (PInt 11)
   \<and> py_eval (shape2 1 2 3 4 Add Mul Add) = Inr (PInt 13)"
  by (simp add: nesting_pattern6 shape2_def shape3_def)

text \<open>
  C8, as amended: there are six templates; the first five denote the five nestings, in
  the order of the specification; the sixth, ungrouped, is read with the precedence of
  \<open>*\<close> and \<open>/\<close> over \<open>+\<close> and \<open>-\<close> and from the left among equals, which makes it
  one of the first four nestings, depending on the operators, and the second
  (left to right) only when no later operator binds tighter than an earlier one. No
  template denotes anything but one of the five nestings.
\<close>

theorem C8_six_templates:
  "length patterns = 6
   \<and> nesting (patterns ! 0) [a, b, c, d] [f, g, h] = Some (shape1 a b c d f g h)
   \<and> nesting (patterns ! 1) [a, b, c, d] [f, g, h] = Some (shape2 a b c d f g h)
   \<and> nesting (patterns ! 2) [a, b, c, d] [f, g, h] = Some (shape3 a b c d f g h)
   \<and> nesting (patterns ! 3) [a, b, c, d] [f, g, h] = Some (shape4 a b c d f g h)
   \<and> nesting (patterns ! 4) [a, b, c, d] [f, g, h] = Some (shape5 a b c d f g h)
   \<and> nesting (patterns ! 5) [a, b, c, d] [f, g, h] =
       Some (if prec f < prec g
             then (if prec g \<le> prec h then shape4 a b c d f g h else shape3 a b c d f g h)
             else (if prec g < prec h then shape1 a b c d f g h else shape2 a b c d f g h))
   \<and> (\<lambda>p. nesting p [a, b, c, d] [f, g, h]) ` set patterns
       \<subseteq> {Some (shape1 a b c d f g h), Some (shape2 a b c d f g h),
          Some (shape3 a b c d f g h), Some (shape4 a b c d f g h),
          Some (shape5 a b c d f g h)}"
proof -
  have len: "length patterns = 6"
    by (simp add: patterns_def)
  have set: "set patterns = {patterns ! 0, patterns ! 1, patterns ! 2, patterns ! 3,
                             patterns ! 4, patterns ! 5}"
    by (simp add: patterns_def)
  have "(\<lambda>p. nesting p [a, b, c, d] [f, g, h]) ` set patterns
       \<subseteq> {Some (shape1 a b c d f g h), Some (shape2 a b c d f g h),
          Some (shape3 a b c d f g h), Some (shape4 a b c d f g h),
          Some (shape5 a b c d f g h)}"
    unfolding set
    using nesting_pattern1 [of a b c d f g h] nesting_pattern2 [of a b c d f g h]
      nesting_pattern3 [of a b c d f g h] nesting_pattern4 [of a b c d f g h]
      nesting_pattern5 [of a b c d f g h] nesting_pattern6 [of a b c d f g h]
    by auto
  with len show ?thesis
    by (simp only: nesting_pattern1 nesting_pattern2 nesting_pattern3 nesting_pattern4
        nesting_pattern5 nesting_pattern6 simp_thms)
qed

theorem C8_six_templates_witness:
  "nesting (patterns ! 5) [6, 4, 3, 1] [Mul, Add, Sub] = Some (shape2 6 4 3 1 Mul Add Sub)
   \<and> nesting (patterns ! 5) [1, 3, 4, 6] [Add, Mul, Div] = Some (shape4 1 3 4 6 Add Mul Div)"
  using C8_six_templates [of 6 4 3 1 Mul Add Sub] C8_six_templates [of 1 3 4 6 Add Mul Div]
  by simp

section \<open>Malformed input: results\<close>

lemma in_combinations:
  "(p, os, pat) \<in> set (combinations numbers operators) \<longleftrightarrow>
     p \<in> set (permutations numbers) \<and> os \<in> set (product_repeat operators 3) \<and> pat \<in> set patterns"
  by (auto simp: combinations_def)

lemma permutations_of_length_length:
  "p \<in> set (permutations_of_length r xs) \<Longrightarrow> length p = r"
  by (induction r arbitrary: xs p) auto

lemma permutations_length: "p \<in> set (permutations xs) \<Longrightarrow> length p = length xs"
  by (simp add: permutations_def permutations_of_length_length)

lemma product_repeat_length: "os \<in> set (product_repeat xs n) \<Longrightarrow> length os = n"
  by (induction n arbitrary: os) auto

lemma format_pattern_index_error:
  "Field k \<in> set ps \<Longrightarrow> length args \<le> k \<Longrightarrow> \<exists>err. format_pattern ps args = Inl err"
  by (induction ps args rule: format_pattern.induct) (auto split: sum.splits)

lemma patterns_Field6: "pat \<in> set patterns \<Longrightarrow> Field 6 \<in> set pat"
  by (auto simp: patterns_def)

lemma try_combination_short:
  assumes "length p < 4" "length os = 3" "pat \<in> set patterns"
  shows "try_combination tgt (p, os, pat) = None"
proof -
  have "\<exists>err. format_pattern pat (map Num p @ map Op os) = Inl err"
    using assms by (intro format_pattern_index_error [OF patterns_Field6]) auto
  then show ?thesis
    by (auto simp: try_combination_def)
qed

lemma picks_set: "(y, ys) \<in> set (picks xs) \<Longrightarrow> y \<in> set xs \<and> set ys \<subseteq> set xs"
proof (induction xs arbitrary: y ys)
  case Nil
  then show ?case by simp
next
  case (Cons x xs)
  from Cons.prems consider "y = x" "ys = xs"
    | ys' where "(y, ys') \<in> set (picks xs)" "ys = x # ys'"
    by auto
  then show ?case
  proof cases
    case 1
    then show ?thesis by auto
  next
    case 2
    with Cons.IH [of y ys'] show ?thesis by auto
  qed
qed

lemma permutations_of_length_set:
  "p \<in> set (permutations_of_length r xs) \<Longrightarrow> set p \<subseteq> set xs"
proof (induction r arbitrary: xs p)
  case 0
  then show ?case by simp
next
  case (Suc r)
  then obtain y ys p' where "(y, ys) \<in> set (picks xs)" "p = y # p'"
    "p' \<in> set (permutations_of_length r ys)"
    by auto
  with Suc.IH [of p' ys] picks_set [of y ys xs] show ?case by auto
qed

lemma permutations_set: "p \<in> set (permutations xs) \<Longrightarrow> set p \<subseteq> set xs"
  by (simp add: permutations_def permutations_of_length_set)

text \<open>
  With more than four operands the field of the first operator is filled by the fifth
  operand. When its text has no sign, two literals stand side by side and the text is
  not an expression.
\<close>

lemma parse_adjacent_operands:
  assumes "pat \<in> set patterns" "6 < length args" "args ! 0 = Num x" "args ! 4 = Num y"
    and "0 \<le> y"
  shows "\<exists>ts. format_pattern pat args = Inr ts \<and> parse ts = None"
  using assms by (auto simp: patterns_def parse_def)

lemma try_combination_long:
  assumes "4 < length p" "length os = 3" "pat \<in> set patterns" "0 \<le> p ! 4"
  shows "try_combination tgt (p, os, pat) = None"
proof -
  have "\<exists>ts. format_pattern pat (map Num p @ map Op os) = Inr ts \<and> parse ts = None"
    using assms by (intro parse_adjacent_operands [where x = "p ! 0" and y = "p ! 4"])
      (auto simp: nth_append)
  then show ?thesis
    by (auto simp: try_combination_def evaluate_expression_def)
qed

lemma map_filter_None: "(\<And>x. x \<in> set xs \<Longrightarrow> f x = None) \<Longrightarrow> List.map_filter f xs = []"
  by (induction xs) auto

lemma discovered_short:
  assumes "length numbers < 4"
  shows "discovered tgt numbers operators = []"
  unfolding discovered_def
proof (rule map_filter_None)
  fix c assume c: "c \<in> set (combinations numbers operators)"
  obtain p os pat where [simp]: "c = (p, os, pat)" by (cases c)
  from c have "length p = length numbers" "length os = 3" "pat \<in> set patterns"
    by (auto simp: in_combinations permutations_length product_repeat_length)
  with assms show "try_combination tgt c = None"
    using try_combination_short [of p os pat tgt] by simp
qed

lemma discovered_long:
  assumes "4 < length numbers" "\<forall>x \<in> set numbers. 0 \<le> x"
  shows "discovered tgt numbers operators = []"
  unfolding discovered_def
proof (rule map_filter_None)
  fix c assume c: "c \<in> set (combinations numbers operators)"
  obtain p os pat where [simp]: "c = (p, os, pat)" by (cases c)
  from c have len: "length p = length numbers" "length os = 3" "pat \<in> set patterns"
    and sub: "set p \<subseteq> set numbers"
    by (auto simp: in_combinations permutations_length product_repeat_length
        dest: permutations_set)
  from len(1) assms(1) have "p ! 4 \<in> set p" by simp
  with sub assms(2) have "0 \<le> p ! 4" by blast
  with len assms(1) show "try_combination tgt c = None"
    using try_combination_long [of p os pat tgt] by simp
qed


lemma discovered_no_operators: "discovered tgt numbers [] = []"
  unfolding discovered_def
proof (rule map_filter_None)
  fix c assume c: "c \<in> set (combinations numbers [])"
  obtain p os pat where "c = (p, os, pat)" by (cases c)
  with c have "os \<in> set (product_repeat [] 3)"
    by (simp add: in_combinations)
  then show "try_combination tgt c = None"
    by (simp add: numeral_3_eq_3)
qed

text \<open>
  C6. The claim: an operand list whose length is not four, or an empty operator list,
  makes the search fail at once with an error. The search has no such check: with three
  operands every template refers to a missing argument and the bare \<^verbatim>\<open>except\<close>
  skips the combination; with no operators there is no combination at all. The result is
  the empty list in both cases.
\<close>

theorem C6_counterexample:
  "find_all_solutions init [1, 2, 3] = Inr {}
   \<and> find_all_solutions (init\<lparr>available_operators := [''normal'' \<mapsto> []]\<rparr>) [1, 2, 3, 4] = Inr {}"
  by (simp add: find_all_solutions_def init_def operator_table_def
      discovered_short discovered_no_operators)

text \<open>
  C6, as amended: \<open>find_all_solutions\<close> signals no precondition violation for any
  operand list. For fewer than four operands, for an empty operator list, and for more
  than four operands none of which is negative, it returns the empty list and
  \<open>has_solution\<close> returns false. (With more than four operands the surplus ones fill
  the operator fields; a negative one is read there as a subtraction, so such a list can
  have solutions.)
\<close>

theorem C6_malformed_input_empty:
  assumes "available_operators g (difficulty g) = Some operators"
  shows "(\<exists>solutions. find_all_solutions g numbers = Inr solutions)
       \<and> (length numbers < 4 \<or> operators = []
            \<or> (4 < length numbers \<and> (\<forall>x \<in> set numbers. 0 \<le> x))
          \<longrightarrow> find_all_solutions g numbers = Inr {} \<and> has_solution g numbers = Inr False)"
  using assms
  by (auto simp: find_all_solutions_def has_solution_def
      discovered_short discovered_long discovered_no_operators)

theorem C6_malformed_input_empty_witness:
  "available_operators init (difficulty init) = Some [Add, Sub, Mul, Div]
   \<and> find_all_solutions init [1, 2, 3, 4, 5] = Inr {}
   \<and> has_solution init [7, 8] = Inr False"
  using C6_malformed_input_empty [of init "[Add, Sub, Mul, Div]" "[1, 2, 3, 4, 5]"]
        C6_malformed_input_empty [of init "[Add, Sub, Mul, Div]" "[7, 8]"]
  by (simp add: init_def operator_table_def)

section \<open>Rounding: results\<close>








lemma fl_zero: "fl 0 = 0"
  by (simp add: fl_def)

lemma exponent_minus: "exponent (- x) = exponent x"
  by (simp add: exponent_def)

lemma fl_minus: "fl (- x) = - fl x"
  by (simp add: fl_def exponent_minus Let_def)




section \<open>Evaluation: results\<close>

text \<open>The exact evaluation can only fail with a division by zero; so can the other.\<close>

lemma frac_binop_error: "frac_binop f x y = Inl err \<Longrightarrow> err = ZeroDivisionError"
  by (cases f) (auto split: if_splits)

lemma frac_eval_error: "frac_eval e = Inl err \<Longrightarrow> err = ZeroDivisionError"
  by (induction e arbitrary: err) (auto split: sum.splits dest: frac_binop_error)

lemma py_binop_error: "py_binop f a b = Inl err \<Longrightarrow> err = ZeroDivisionError"
  by (cases f; cases a; cases b) (auto split: if_splits)

lemma py_eval_error: "py_eval e = Inl err \<Longrightarrow> err = ZeroDivisionError"
  by (induction e arbitrary: err) (auto split: sum.splits dest: py_binop_error)


text \<open>
  A Python value computed from at most two operands is the exact value or its nearest
  double.
\<close>

lemma to_float_rounded: "rounded v q \<Longrightarrow> to_float v = fl q"
  by (cases v) (simp_all add: rounded_def)

lemma leaves_pos: "0 < length (leaves t)"
  by (induction t) simp_all

lemma single_leaf: "length (leaves t) \<le> 1 \<Longrightarrow> \<exists>n. t = Const n"
proof (cases t)
  case (BinOp f l r)
  assume "length (leaves t) \<le> 1"
  moreover have "length (leaves t) = length (leaves l) + length (leaves r)"
    using BinOp by simp
  ultimately have False
    using leaves_pos [of l] leaves_pos [of r] by linarith
  then show ?thesis ..
qed simp

lemma rounded_two_leaves:
  assumes "length (leaves e) \<le> 2" "frac_eval e = Inr q"
  shows "\<exists>v. py_eval e = Inr v \<and> rounded v q"
proof (cases e)
  case (Const n)
  with assms show ?thesis by (simp add: rounded_def)
next
  case (BinOp f l r)
  then have "length (leaves e) = length (leaves l) + length (leaves r)" by simp
  with assms(1) leaves_pos [of l] leaves_pos [of r]
  have "length (leaves l) \<le> 1" "length (leaves r) \<le> 1" by linarith+
  then obtain a b where "l = Const a" "r = Const b"
    using single_leaf by blast
  with assms BinOp show ?thesis
    by (cases f) (auto simp: rounded_def split: if_splits)
qed

text \<open>
  When the exact value of an expression of at most three operands is zero, the float
  evaluation raises or gives zero too.
\<close>

lemma py_binop_cases:
  "(\<exists>m n. a = PInt m \<and> b = PInt n \<and> py_binop f a b = int_binop f m n)
   \<or> py_binop f a b = float_binop f (to_float a) (to_float b)"
  by (cases a; cases b) simp_all

lemma py_binop_zero:
  assumes "rounded a x" "rounded b y" "frac_binop f x y = Inr 0"
  shows "py_binop f a b = Inl ZeroDivisionError
         \<or> py_binop f a b = Inr (PInt 0) \<or> py_binop f a b = Inr (PFloat 0)"
proof -
  have fa: "to_float a = fl x" and fb: "to_float b = fl y"
    using assms by (simp_all add: to_float_rounded)
  from py_binop_cases [of a b f] show ?thesis
  proof
    assume "\<exists>m n. a = PInt m \<and> b = PInt n \<and> py_binop f a b = int_binop f m n"
    then obtain m n where mn: "a = PInt m" "b = PInt n" "py_binop f a b = int_binop f m n"
      by blast
    with assms have xy: "x = of_int m" "y = of_int n" by (simp_all add: rounded_def)
    show ?thesis
    proof (cases f)
      case Add
      with assms(3) xy have "(of_int (m + n) :: rat) = 0" by simp
      then have "m + n = 0" by (simp only: of_int_eq_0_iff)
      with Add mn show ?thesis by simp
    next
      case Sub
      with assms(3) xy have "(of_int (m - n) :: rat) = 0" by simp
      then have "m - n = 0" by (simp only: of_int_eq_0_iff)
      with Sub mn show ?thesis by simp
    next
      case Mul
      with assms(3) xy have "(of_int (m * n) :: rat) = 0" by simp
      then have "m * n = 0" by (simp only: of_int_eq_0_iff)
      with Mul mn show ?thesis by simp
    next
      case Div
      with assms(3) xy have "n \<noteq> 0 \<Longrightarrow> m = 0" by (auto split: if_splits)
      with Div mn show ?thesis by (auto simp: fl_zero)
    qed
  next
    assume fb2: "py_binop f a b = float_binop f (to_float a) (to_float b)"
    show ?thesis
    proof (cases f)
      case Add
      with assms(3) have "y = - x" by simp
      then have "fl x + fl y = 0" by (simp add: fl_minus)
      with Add fb2 fa fb show ?thesis by (simp add: fl_zero)
    next
      case Sub
      with assms(3) have "y = x" by simp
      with Sub fb2 fa fb show ?thesis by (simp add: fl_zero)
    next
      case Mul
      with assms(3) have "x = 0 \<or> y = 0" by simp
      then have "fl x * fl y = 0" by (auto simp: fl_zero)
      with Mul fb2 fa fb show ?thesis by (simp add: fl_zero)
    next
      case Div
      with assms(3) have "x = 0" by (auto split: if_splits)
      with Div fb2 fa fb show ?thesis by (simp add: fl_zero)
    qed
  qed
qed

lemma zero_three_leaves:
  assumes "length (leaves e) \<le> 3" "frac_eval e = Inr 0"
  shows "py_eval e = Inl ZeroDivisionError
         \<or> py_eval e = Inr (PInt 0) \<or> py_eval e = Inr (PFloat 0)"
proof (cases e)
  case (Const n)
  with assms show ?thesis by simp
next
  case (BinOp f l r)
  with assms(2) obtain x y where xy: "frac_eval l = Inr x" "frac_eval r = Inr y"
    and op: "frac_binop f x y = Inr 0"
    by (auto split: sum.splits)
  from BinOp have "length (leaves e) = length (leaves l) + length (leaves r)" by simp
  with assms(1) leaves_pos [of l] leaves_pos [of r]
  have "length (leaves l) \<le> 2" "length (leaves r) \<le> 2" by linarith+
  with xy obtain a b where ab: "py_eval l = Inr a" "rounded a x" "py_eval r = Inr b" "rounded b y"
    using rounded_two_leaves by blast
  with py_binop_zero [OF ab(2) ab(4) op] BinOp show ?thesis by simp
qed

lemma py_binop_div_zero:
  "b = PInt 0 \<or> b = PFloat 0 \<Longrightarrow> py_binop Div a b = Inl ZeroDivisionError"
  by (cases a) (auto simp: fl_zero)

text \<open>
  So for an expression of at most four operands a division by zero in the exact
  evaluation is a division by zero in the float evaluation.
\<close>

lemma py_eval_left_error:
  "py_eval l = Inl ZeroDivisionError \<Longrightarrow> py_eval (BinOp f l r) = Inl ZeroDivisionError"
  by simp

lemma py_eval_right_error:
  "py_eval r = Inl ZeroDivisionError \<Longrightarrow> py_eval (BinOp f l r) = Inl ZeroDivisionError"
  by (auto split: sum.splits dest: py_eval_error)

lemma zero_division_agrees:
  "length (leaves e) \<le> 4 \<Longrightarrow> frac_eval e = Inl ZeroDivisionError
     \<Longrightarrow> py_eval e = Inl ZeroDivisionError"
proof (induction e)
  case (Const n)
  then show ?case by simp
next
  case (BinOp f l r)
  have "length (leaves (BinOp f l r)) = length (leaves l) + length (leaves r)" by simp
  with BinOp.prems(1) leaves_pos [of l] leaves_pos [of r]
  have len: "length (leaves l) \<le> 4" "length (leaves r) \<le> 3" by linarith+
  show ?case
  proof (cases "frac_eval l")
    case (Inl err)
    then have "frac_eval l = Inl ZeroDivisionError" by (simp add: frac_eval_error)
    with BinOp.IH(1) len show ?thesis by (simp del: py_eval.simps add: py_eval_left_error)
  next
    case x: (Inr x)
    show ?thesis
    proof (cases "frac_eval r")
      case (Inl err)
      then have "frac_eval r = Inl ZeroDivisionError" by (simp add: frac_eval_error)
      with BinOp.IH(2) len show ?thesis by (simp del: py_eval.simps add: py_eval_right_error)
    next
      case y: (Inr y)
      with x BinOp.prems(2) have "f = Div" "y = 0"
        by (cases f; auto split: if_splits)+
      with y len zero_three_leaves [of r]
      consider "py_eval r = Inl ZeroDivisionError"
        | "py_eval r = Inr (PInt 0) \<or> py_eval r = Inr (PFloat 0)" by auto
      then show ?thesis
      proof cases
        case 1
        then show ?thesis by (rule py_eval_right_error)
      next
        case 2
        show ?thesis
        proof (cases "py_eval l")
          case (Inl err)
          then show ?thesis by (auto dest: py_eval_error)
        next
          case (Inr a)
          with 2 \<open>f = Div\<close> py_binop_div_zero [of _ a] show ?thesis
            by auto
        qed
      qed
    qed
  qed
qed

section \<open>Search: results\<close>

text \<open>
  Every template, filled with four operands and three operators, is well-formed text;
  the expression it denotes has the four operands as its leaves, in their order, and
  divides exactly when the text contains the division sign.
\<close>

lemma combination_expression:
  assumes "pat \<in> set patterns"
  shows "\<exists>ts e. format_pattern pat (map Num [a, b, c, d] @ map Op [f, g, h]) = Inr ts
           \<and> parse ts = Some e \<and> leaves e = [a, b, c, d]
           \<and> (Op Div \<in> set ts \<longleftrightarrow> uses_div e)"
proof -
  from assms consider "pat = patterns ! 0" | "pat = patterns ! 1" | "pat = patterns ! 2"
    | "pat = patterns ! 3" | "pat = patterns ! 4" | "pat = patterns ! 5"
    by (auto simp: patterns_def)
  then show ?thesis
  proof cases
    case 1
    then show ?thesis by (auto simp: patterns_def parse_def)
  next
    case 2
    then show ?thesis by (auto simp: patterns_def parse_def)
  next
    case 3
    then show ?thesis by (auto simp: patterns_def parse_def)
  next
    case 4
    then show ?thesis by (auto simp: patterns_def parse_def)
  next
    case 5
    then show ?thesis by (auto simp: patterns_def parse_def)
  next
    case 6
    then show ?thesis
      by (cases f; cases g; cases h) (simp_all add: patterns_def parse_def)
  qed
qed

lemma length4: "length p = 4 \<Longrightarrow> \<exists>a b c d. p = [a, b, c, d]"
  by (auto simp: length_Suc_conv numeral_eq_Suc)

lemma length3: "length os = 3 \<Longrightarrow> \<exists>f g h. os = [f, g, h]"
  by (auto simp: length_Suc_conv numeral_eq_Suc)

lemma combination_nesting:
  assumes "(p, os, pat) \<in> set (combinations numbers operators)" "length numbers = 4"
  shows "\<exists>ts e. format_pattern pat (map Num p @ map Op os) = Inr ts
           \<and> parse ts = Some e \<and> nesting pat p os = Some e \<and> leaves e = p
           \<and> (Op Div \<in> set ts \<longleftrightarrow> uses_div e)"
proof -
  from assms have "length p = 4" "length os = 3" "pat \<in> set patterns"
    by (auto simp: in_combinations permutations_length product_repeat_length)
  then obtain a b c d f g h where "p = [a, b, c, d]" "os = [f, g, h]"
    using length4 length3 by metis
  with combination_expression [OF \<open>pat \<in> set patterns\<close>, of a b c d f g h]
  show ?thesis by (auto simp: nesting_def)
qed

lemma try_combination_Some:
  assumes "try_combination tgt (p, os, pat) = Some ex"
  shows "format_pattern pat (map Num p @ map Op os) = Inr ex
         \<and> (\<exists>r. evaluate_expression ex = Inr r \<and> near_target r tgt)"
  using assms by (auto simp: try_combination_def split: sum.splits if_splits)

lemma in_discovered:
  "ex \<in> set (discovered tgt numbers operators) \<longleftrightarrow>
     (\<exists>c \<in> set (combinations numbers operators). try_combination tgt c = Some ex)"
  by (force simp: discovered_def List.map_filter_def)

lemma discovered_near_target:
  assumes "ex \<in> set (discovered tgt numbers operators)"
  shows "\<exists>r. evaluate_expression ex = Inr r \<and> near_target r tgt"
proof -
  from assms obtain c where "try_combination tgt c = Some ex"
    by (auto simp: in_discovered)
  then show ?thesis
    using try_combination_Some by (cases c) blast
qed

lemma evaluate_expression_zero_division:
  assumes "parse ts = Some e" "py_eval e = Inl ZeroDivisionError"
  shows "evaluate_expression ts = Inr Infinity"
  using assms by (simp add: evaluate_expression_def)

text \<open>
  C2. A combination whose evaluation divides by zero at some step makes
  \<open>evaluate_expression\<close> return infinity, without raising; the combination is not
  added, its expression is not among the solutions, and every other combination that
  passes the test is.
\<close>

theorem C2_division_by_zero:
  assumes "length numbers = 4" and "\<forall>x \<in> set numbers. 1 \<le> x \<and> x \<le> 9"
    and "available_operators g (difficulty g) = Some operators"
    and "(p, os, pat) \<in> set (combinations numbers operators)"
    and "nesting pat p os = Some e"
    and "frac_eval e = Inl ZeroDivisionError \<or> py_eval e = Inl ZeroDivisionError"
  shows "\<exists>expression solutions.
           format_pattern pat (map Num p @ map Op os) = Inr expression
           \<and> evaluate_expression expression = Inr Infinity
           \<and> try_combination (target g) (p, os, pat) = None
           \<and> find_all_solutions g numbers = Inr solutions
           \<and> expression \<notin> solutions
           \<and> (\<forall>c \<in> set (combinations numbers operators). \<forall>ex.
                 try_combination (target g) c = Some ex \<longrightarrow> ex \<in> solutions)"
proof -
  from combination_nesting [OF assms(4) assms(1)] assms(5)
  obtain ts where ts: "format_pattern pat (map Num p @ map Op os) = Inr ts"
    "parse ts = Some e" "leaves e = p"
    by auto
  from assms(4) assms(1) have "length p = 4"
    by (auto simp: in_combinations permutations_length)
  with ts(3) have "length (leaves e) \<le> 4" by simp
  with assms(6) have "py_eval e = Inl ZeroDivisionError"
    using zero_division_agrees by blast
  with ts(2) have inf: "evaluate_expression ts = Inr Infinity"
    by (rule evaluate_expression_zero_division)
  have none: "try_combination (target g) (p, os, pat) = None"
    using ts(1) inf by (simp add: try_combination_def)
  have sol: "find_all_solutions g numbers = Inr (set (discovered (target g) numbers operators))"
    using assms(3) by (simp add: find_all_solutions_def)
  have notin: "ts \<notin> set (discovered (target g) numbers operators)"
    using discovered_near_target [of ts "target g" numbers operators] inf by auto
  have rest: "\<forall>c \<in> set (combinations numbers operators). \<forall>ex.
      try_combination (target g) c = Some ex \<longrightarrow> ex \<in> set (discovered (target g) numbers operators)"
    by (auto simp: in_discovered)
  from ts(1) inf none sol notin rest show ?thesis by blast
qed

lemma init_operators: "available_operators init (difficulty init) = Some [Add, Sub, Mul, Div]"
  by (simp add: init_def operator_table_def)

lemma init_target: "target init = 24"
  by (simp add: init_def)

theorem C2_division_by_zero_witness:
  "evaluate_expression
     [Num 8, Op Div, LParen, LParen, Num 3, Op Sub, Num 3, RParen, Op Mul, Num 8, RParen]
     = Inr Infinity
   \<and> try_combination 24 ([8, 3, 3, 8], [Div, Sub, Mul], patterns ! 3) = None
   \<and> [Num 8, Op Div, LParen, LParen, Num 3, Op Sub, Num 3, RParen, Op Mul, Num 8, RParen]
       \<notin> projr (find_all_solutions init [3, 3, 8, 8])"
proof -
  have perm: "[8, 3, 3, 8] \<in> set (permutations [3, 3, 8, 8 :: int])"
    by code_simp
  have ops: "[Div, Sub, Mul] \<in> set (product_repeat [Add, Sub, Mul, Div] 3)"
    by code_simp
  have c: "([8, 3, 3, 8], [Div, Sub, Mul], patterns ! 3)
             \<in> set (combinations [3, 3, 8, 8] [Add, Sub, Mul, Div])"
    using perm ops by (simp add: in_combinations) (simp add: patterns_def)
  have n: "nesting (patterns ! 3) [8, 3, 3, 8] [Div, Sub, Mul] = Some (shape4 8 3 3 8 Div Sub Mul)"
    by (rule nesting_pattern4)
  have z: "frac_eval (shape4 8 3 3 8 Div Sub Mul) = Inl ZeroDivisionError
           \<or> py_eval (shape4 8 3 3 8 Div Sub Mul) = Inl ZeroDivisionError"
    by (simp add: shape4_def)
  have f: "format_pattern (patterns ! 3) (map Num [8, 3, 3, 8] @ map Op [Div, Sub, Mul])
           = Inr [Num 8, Op Div, LParen, LParen, Num 3, Op Sub, Num 3, RParen, Op Mul, Num 8, RParen]"
    by (simp add: patterns_def)
  have r: "\<forall>x \<in> set [3, 3, 8, 8 :: int]. 1 \<le> x \<and> x \<le> 9" by simp
  from C2_division_by_zero [OF _ r init_operators c n z] f
  show ?thesis by (auto simp: init_target)
qed

section \<open>The tolerance test: results\<close>





section \<open>Surplus operands: an example\<close>


text \<open>
  An operand list of five with negative operands: the text of the first template is
  \<^verbatim>\<open>(30 -4 -2) + (1 - 1)\<close>, which evaluates to 24 and is added.
\<close>

lemma surplus_operands_example:
  "[LParen, Num 30, Num (- 4), Num (- 2), RParen, Op Add, LParen, Num 1, Op Sub, Num 1, RParen]
     \<in> set (discovered 24 [30, - 2, 1, 1, - 4] [Add, Sub, Mul, Div])"
proof -
  have "[30, - 2, 1, 1, - 4] \<in> set (permutations [30, - 2, 1, 1, - 4 :: int])"
    by code_simp
  moreover have "[Add, Sub, Mul] \<in> set (product_repeat [Add, Sub, Mul, Div] 3)"
    by code_simp
  ultimately have "([30, - 2, 1, 1, - 4], [Add, Sub, Mul], patterns ! 0)
      \<in> set (combinations [30, - 2, 1, 1, - 4] [Add, Sub, Mul, Div])"
    by (simp add: in_combinations) (simp add: patterns_def)
  moreover have "try_combination 24 ([30, - 2, 1, 1, - 4], [Add, Sub, Mul], patterns ! 0)
      = Some [LParen, Num 30, Num (- 4), Num (- 2), RParen, Op Add, LParen, Num 1, Op Sub,
              Num 1, RParen]"
    by code_simp
  ultimately show ?thesis
    unfolding in_discovered by blast
qed

section \<open>The tolerance test: exactness on the documented range\<close>











end
